theory Spec2Isabelle
  imports Main "HOL-Library.Sublist"
begin

section \<open>JavaScript values the gateway handles\<close>

text \<open>
  The repository holds three iterations of one class, \<open>AdxMcpServer\<close>:
  \<^item> the local-store iteration (first half of \<open>adxMcpServer.ts\<close>), whose query tool runs
    SQL on a file-backed store; its definitions carry the suffix \<open>_sqlite\<close>;
  \<^item> the template iteration (second half of \<open>adxMcpServer.ts\<close>), which registers
    \<open>ResourceTemplate\<close>s with the high-level server; suffix \<open>_template\<close>;
  \<^item> the low-level iteration (\<open>part_000\<close>), which installs request handlers itself and
    matches addresses with regular expressions; suffix \<open>_lowlevel\<close>.
  Strings are \<open>string\<close>; a value that may be \<open>undefined\<close> is an \<open>option\<close>; a thrown
  value is the left summand of a sum.
\<close>

datatype Error = Error (errName: string) (message: string)

text \<open>\<open>new Error(msg)\<close>: the name of a plain error object is \<open>Error\<close>.\<close>

definition new_Error :: "string \<Rightarrow> Error" where
  "new_Error msg = Error ''Error'' msg"

text \<open>\<open>Error.prototype.toString\<close>, which a template literal applies to an error object.\<close>

definition error_toString :: "Error \<Rightarrow> string" where
  "error_toString e =
     (if errName e = [] then message e
      else if message e = [] then errName e
      else errName e @ '': '' @ message e)"

text \<open>A template literal \<open>`${v}`\<close> of a string that may be \<open>undefined\<close>.\<close>

definition interpolate :: "string option \<Rightarrow> string" where
  "interpolate v = (case v of None \<Rightarrow> ''undefined'' | Some s \<Rightarrow> s)"

text \<open>Truthiness of a string that may be \<open>undefined\<close>: the empty string is falsy too.\<close>

definition truthy :: "string option \<Rightarrow> bool" where
  "truthy v = (case v of None \<Rightarrow> False | Some s \<Rightarrow> s \<noteq> [])"

subsection \<open>\<open>String.prototype.split\<close> and array indexing\<close>

text \<open>
  \<open>s.split(sep)\<close> for a one-character separator: the pieces between the separators, so
  the empty string gives one empty piece.
\<close>

fun split :: "char \<Rightarrow> string \<Rightarrow> string list" where
  "split sep [] = [Nil]"
| "split sep (c # cs) =
     (if c = sep then Nil # split sep cs
      else (case split sep cs of [] \<Rightarrow> [c # Nil] | w # ws \<Rightarrow> (c # w) # ws))"

text \<open>\<open>xs[i]\<close>: \<open>undefined\<close> beyond the end of the array.\<close>

definition at :: "'a list \<Rightarrow> nat \<Rightarrow> 'a option" where
  "at xs i = (if i < length xs then Some (xs ! i) else None)"

subsection \<open>The regular expressions of the low-level iteration\<close>

text \<open>
  The three patterns use literal characters, \<open>\w+\<close> and a final \<open>$\<close> only. A pattern is
  the list of its atoms; the \<open>$\<close> that ends each of them is the empty list.
\<close>

datatype atom = Lit char | WordPlus

text \<open>\<open>\w\<close> is \<open>[A-Za-z0-9_]\<close>.\<close>

definition is_word :: "char \<Rightarrow> bool" where
  "is_word c = (c \<in> set ''ABCDEFGHIJKLMNOPQRSTUVWXYZabcdefghijklmnopqrstuvwxyz0123456789_'')"

text \<open>
  \<open>match_here r s\<close>: the pattern \<open>r$\<close> matches the string \<open>s\<close> from its first character
  to its end. \<open>\w+\<close> takes one word character and then either goes on or stops, which is
  what backtracking over the greedy quantifier explores.
\<close>

fun match_here :: "atom list \<Rightarrow> string \<Rightarrow> bool" where
  "match_here [] s = (s = [])"
| "match_here (Lit c # r) [] = False"
| "match_here (Lit c # r) (x # xs) = (x = c \<and> match_here r xs)"
| "match_here (WordPlus # r) [] = False"
| "match_here (WordPlus # r) (x # xs) =
     (is_word x \<and> (match_here (WordPlus # r) xs \<or> match_here r xs))"

text \<open>
  \<open>regex.test(s)\<close> for a pattern with no \<open>^\<close>: the match may start at any position of
  the string, the position after the last character included.
\<close>

fun test :: "atom list \<Rightarrow> string \<Rightarrow> bool" where
  "test r [] = match_here r []"
| "test r (x # xs) = (match_here r (x # xs) \<or> test r xs)"

definition lits :: "string \<Rightarrow> atom list" where
  "lits s = map Lit s"

text \<open>\<open>/schema:\/\/adx\/\w+$/\<close>\<close>

definition showTablesRegex :: "atom list" where
  "showTablesRegex = lits ''schema://adx/'' @ [WordPlus]"

text \<open>\<open>/schema:\/\/adx\/\w+\/\w+$/\<close>\<close>

definition showTableSchemaRegex :: "atom list" where
  "showTableSchemaRegex = lits ''schema://adx/'' @ [WordPlus, Lit CHR ''/'', WordPlus]"

text \<open>\<open>/schema:\/\/adx\/\w+\/functions$/\<close>\<close>

definition showFunctionsRegex :: "atom list" where
  "showFunctionsRegex = lits ''schema://adx/'' @ [WordPlus, Lit CHR ''/''] @ lits ''functions''"

section \<open>The remote client and the payloads\<close>

text \<open>
  The Kusto client is an external library. A result table is known here by what its
  \<open>toString()\<close> returns; a response is its ordered list of primary result tables; a
  client is what \<open>execute(db, query)\<close> answers, an error when the call rejects.
\<close>

datatype KustoResultTable = KustoResultTable (toString: string)

record KustoResponseDataSet =
  primaryResults :: "KustoResultTable list"

record Client =
  execute :: "string \<Rightarrow> string \<Rightarrow> Error + KustoResponseDataSet"

text \<open>
  One entry of a \<open>contents\<close> array. The handlers build three shapes of entry:
  \<open>{uri, name, mimeType, text}\<close>, \<open>{uri, name, text}\<close> and \<open>{type, text}\<close>.
\<close>

datatype Content =
    ResourceContent string string string string
  | ConfigContent string string string
  | TextContent string string

fun contentText :: "Content \<Rightarrow> string" where
  "contentText (ResourceContent u n m t) = t"
| "contentText (ConfigContent u n t) = t"
| "contentText (TextContent ty t) = t"

fun contentUri :: "Content \<Rightarrow> string option" where
  "contentUri (ResourceContent u n m t) = Some u"
| "contentUri (ConfigContent u n t) = Some u"
| "contentUri (TextContent ty t) = None"

text \<open>What a handler returns: \<open>{contents: [...]}\<close>, with \<open>isError: true\<close> or without it.\<close>

record Payload =
  contents :: "Content list"
  isError :: bool

text \<open>
  A handler either throws (\<open>Inl\<close>) or returns (\<open>Inr\<close>); what it returns is a payload or,
  when it falls off the end of its body, \<open>undefined\<close> (\<open>None\<close>). Beside its result a
  handler is given the list of the remote calls it made, as pairs (database, query text),
  in the order it made them.
\<close>

type_synonym Call = "string \<times> string"

type_synonym Completion = "(Error + Payload option) \<times> Call list"

text \<open>
  \<open>response.primaryResults[0].toString()\<close> after \<open>await client.execute(db, query)\<close>: the
  two lines every remote handler shares. Reading a property of \<open>undefined\<close> throws a
  \<open>TypeError\<close>.
\<close>

definition firstResult :: "Client \<Rightarrow> string \<Rightarrow> string \<Rightarrow> Error + string" where
  "firstResult c db query =
     (case execute c db query of
        Inl err \<Rightarrow> Inl err
      | Inr response \<Rightarrow>
          (case primaryResults response of
             [] \<Rightarrow> Inl (Error ''TypeError''
                          ''Cannot read properties of undefined (reading 'toString')'')
           | t # _ \<Rightarrow> Inr (toString t)))"

section \<open>The low-level iteration: handlers\<close>

type_synonym env = "string \<rightharpoonup> string"

text \<open>The four entries of the config resource, with the secret masked.\<close>

definition configContents :: "env \<Rightarrow> Content list" where
  "configContents e =
     [ConfigContent ''config://azure-data-explorer-creds/cluster-name'' ''Cluster Name''
        (interpolate (e ''ADX_CLUSTER_NAME'')),
      ConfigContent ''config://azure-data-explorer-creds/client-id'' ''Client ID''
        (interpolate (e ''ADX_CLIENT_ID'')),
      ConfigContent ''config://azure-data-explorer-creds/client-secret'' ''Client Secret''
        (if truthy (e ''ADX_CLIENT_SECRET'') then ''******'' else ''Not set''),
      ConfigContent ''config://azure-data-explorer-creds/tenant-id'' ''Tenant ID''
        (interpolate (e ''ADX_TENANT_ID''))]"

text \<open>The read handler that \<open>registerResources\<close> installs.\<close>

definition readResource_config_lowlevel :: "Client option \<Rightarrow> env \<Rightarrow> string \<Rightarrow> Completion" where
  "readResource_config_lowlevel client e uri =
     (if prefix ''config://azure-data-explorer-creds'' uri
      then (Inr (Some \<lparr>contents = configContents e, isError = False\<rparr>), [])
      else (Inr None, []))"

definition invalidUri :: "string \<Rightarrow> Payload" where
  "invalidUri uri =
     \<lparr>contents = [ResourceContent uri ''Error'' ''text/plain'' ''Invalid URI''], isError = False\<rparr>"

definition textResource :: "string \<Rightarrow> string \<Rightarrow> string \<Rightarrow> Payload" where
  "textResource uri nm result =
     \<lparr>contents = [ResourceContent uri nm ''text/plain'' result], isError = False\<rparr>"

text \<open>
  The read handler that \<open>registerResourceTemplates\<close> installs. The three patterns are
  tried in the order of the source. \<open>uri.split("/")[3]\<close> may be \<open>undefined\<close> or empty,
  and \<open>!db\<close> is true of both. In the third branch the source calls the client before it
  looks at \<open>db\<close>; there a \<open>db\<close> that is \<open>undefined\<close> cannot occur (see
  \<open>test_split_index3\<close>), and the model gives that case the invalid-address payload.
\<close>

definition readResource_templates_lowlevel :: "Client option \<Rightarrow> env \<Rightarrow> string \<Rightarrow> Completion" where
  "readResource_templates_lowlevel client e uri =
     (if test showTablesRegex uri then
        (let db = at (split CHR ''/'' uri) 3 in
         case client of
           None \<Rightarrow> (Inl (new_Error ''Database client is not initialized''), [])
         | Some c \<Rightarrow>
             (case db of
                None \<Rightarrow> (Inr (Some (invalidUri uri)), [])
              | Some d \<Rightarrow>
                  if d = [] then (Inr (Some (invalidUri uri)), [])
                  else (case firstResult c d ''.show tables'' of
                          Inl err \<Rightarrow> (Inl err, [(d, ''.show tables'')])
                        | Inr result \<Rightarrow>
                            (Inr (Some (textResource uri (''Schema of the db '' @ d) result)),
                             [(d, ''.show tables'')]))))
      else if test showTableSchemaRegex uri then
        (let db = at (split CHR ''/'' uri) 3; table = at (split CHR ''/'' uri) 4 in
         case client of
           None \<Rightarrow> (Inl (new_Error ''Database client is not initialized''), [])
         | Some c \<Rightarrow>
             (case (db, table) of
                (Some d, Some t) \<Rightarrow>
                  if d = [] \<or> t = [] then (Inr (Some (invalidUri uri)), [])
                  else (case firstResult c d (t @ '' | getschema'') of
                          Inl err \<Rightarrow> (Inl err, [(d, t @ '' | getschema'')])
                        | Inr result \<Rightarrow>
                            (Inr (Some (textResource uri (''Schema of the table '' @ t) result)),
                             [(d, t @ '' | getschema'')]))
              | _ \<Rightarrow> (Inr (Some (invalidUri uri)), [])))
      else if test showFunctionsRegex uri then
        (let db = at (split CHR ''/'' uri) 3 in
         case client of
           None \<Rightarrow> (Inl (new_Error ''Database client is not initialized''), [])
         | Some c \<Rightarrow>
             (case db of
                None \<Rightarrow> (Inr (Some (invalidUri uri)), [])
              | Some d \<Rightarrow>
                  (case firstResult c d ''.show functions'' of
                     Inl err \<Rightarrow> (Inl err, [(d, ''.show functions'')])
                   | Inr result \<Rightarrow>
                       if d = [] then (Inr (Some (invalidUri uri)), [(d, ''.show functions'')])
                       else (Inr (Some (textResource uri (''Functions of the db '' @ d) result)),
                             [(d, ''.show functions'')]))))
      else (Inr None, []))"

section \<open>The template iteration: handlers\<close>

text \<open>
  The variables a \<open>ResourceTemplate\<close> binds (\<open>ResourceTemplateSchema\<close>: \<open>db\<close>, and
  \<open>table\<close> when the template has it) and the arguments of the query tool
  (\<open>QueryToolSchema\<close>). Matching an address against a template is done by the server
  library, which hands the handler the address and the bound variables.
\<close>

record ResourceTemplateData =
  rt_db :: string
  rt_table :: "string option"

record QueryToolData =
  qt_db :: string
  qt_query :: string

text \<open>Handler of \<open>"Schema of the db"\<close>, registered for \<open>schema://adx/{db}\<close>.\<close>

definition schemaOfTheDb_template :: "Client option \<Rightarrow> string \<Rightarrow> ResourceTemplateData \<Rightarrow> Completion" where
  "schemaOfTheDb_template client href data =
     (case client of
        None \<Rightarrow> (Inl (new_Error ''Client is not initialized''), [])
      | Some c \<Rightarrow>
          if \<not> truthy (rt_table data) then
            (case firstResult c (rt_db data) ''.show tables'' of
               Inl err \<Rightarrow> (Inl err, [(rt_db data, ''.show tables'')])
             | Inr result \<Rightarrow>
                 (Inr (Some (textResource href
                               (''List down all tables in the db '' @ rt_db data) result)),
                  [(rt_db data, ''.show tables'')]))
          else (Inr None, []))"

text \<open>Handler of \<open>"Schema of the table"\<close>, registered for \<open>schema://adx/{db}/{table}\<close>.\<close>

definition schemaOfTheTable_template :: "Client option \<Rightarrow> string \<Rightarrow> ResourceTemplateData \<Rightarrow> Completion" where
  "schemaOfTheTable_template client href data =
     (case client of
        None \<Rightarrow> (Inl (new_Error ''Client is not initialized''), [])
      | Some c \<Rightarrow>
          if truthy (rt_table data) then
            (case firstResult c (rt_db data) (interpolate (rt_table data) @ '' | getschema'') of
               Inl err \<Rightarrow>
                 (Inl err, [(rt_db data, interpolate (rt_table data) @ '' | getschema'')])
             | Inr result \<Rightarrow>
                 (Inr (Some (textResource href
                               (''Schema of the table '' @ interpolate (rt_table data)) result)),
                  [(rt_db data, interpolate (rt_table data) @ '' | getschema'')]))
          else (Inr None, []))"

text \<open>Handler of \<open>"Functions of the db"\<close>, registered for \<open>functions://adx/{db}/functions\<close>.\<close>

definition functionsOfTheDb_template :: "Client option \<Rightarrow> string \<Rightarrow> ResourceTemplateData \<Rightarrow> Completion" where
  "functionsOfTheDb_template client href data =
     (case client of
        None \<Rightarrow> (Inl (new_Error ''Client is not initialized''), [])
      | Some c \<Rightarrow>
          (case firstResult c (rt_db data) ''.show functions'' of
             Inl err \<Rightarrow> (Inl err, [(rt_db data, ''.show functions'')])
           | Inr result \<Rightarrow>
               (Inr (Some (textResource href
                             (''List down all functions in the db '' @ rt_db data) result)),
                [(rt_db data, ''.show functions'')])))"

text \<open>Handler of \<open>"config"\<close>: the same four entries as in the low-level iteration.\<close>

definition config_template :: "env \<Rightarrow> string \<Rightarrow> Completion" where
  "config_template e href = (Inr (Some \<lparr>contents = configContents e, isError = False\<rparr>), [])"

text \<open>Handler of the tool \<open>"query"\<close>. It has no \<open>try\<close>: what the client throws, it throws.\<close>

definition queryTool_template :: "Client option \<Rightarrow> QueryToolData \<Rightarrow> Completion" where
  "queryTool_template client data =
     (case client of
        None \<Rightarrow> (Inl (new_Error ''Client is not initialized''), [])
      | Some c \<Rightarrow>
          (case firstResult c (qt_db data) (qt_query data) of
             Inl err \<Rightarrow> (Inl err, [(qt_db data, qt_query data)])
           | Inr result \<Rightarrow>
               (Inr (Some \<lparr>contents = [TextContent ''text'' result], isError = False\<rparr>),
                [(qt_db data, qt_query data)])))"

section \<open>The local-store iteration: handlers\<close>

text \<open>
  What \<open>getDb()\<close> returns: \<open>all(sql)\<close>, which resolves to rows or rejects, and
  \<open>close()\<close>, which resolves or rejects. The rows are rendered by \<open>JSON.stringify\<close>,
  a parameter here.
\<close>

record 'r Db =
  db_all :: "string \<Rightarrow> Error + 'r"
  db_close :: "Error option"

text \<open>Handler of \<open>"config"\<close> in this iteration: the secret is interpolated as it is.\<close>

definition config_sqlite :: "env \<Rightarrow> string \<Rightarrow> Completion" where
  "config_sqlite e href =
     (Inr (Some \<lparr>contents =
        [ConfigContent ''config://azure-data-explorer-creds/cluster-name'' ''Cluster Name''
           (interpolate (e ''ADX_CLUSTER_NAME'')),
         ConfigContent ''config://azure-data-explorer-creds/client-id'' ''Client ID''
           (interpolate (e ''ADX_CLIENT_ID'')),
         ConfigContent ''config://azure-data-explorer-creds/client-secret'' ''Client Secret''
           (interpolate (e ''ADX_CLIENT_SECRET'')),
         ConfigContent ''config://azure-data-explorer-creds/tenant-id'' ''Tenant ID''
           (interpolate (e ''ADX_TENANT_ID''))],
        isError = False\<rparr>), [])"

text \<open>
  Handler of the tool \<open>"query"\<close> in this iteration: \<open>try\<close>, \<open>catch\<close>, \<open>finally\<close>.
  The \<open>finally\<close> block awaits \<open>db.close()\<close>; when that rejects, its error replaces
  whatever the \<open>try\<close> or the \<open>catch\<close> block returned.
\<close>

definition queryTool_sqlite :: "('r \<Rightarrow> string) \<Rightarrow> 'r Db \<Rightarrow> string \<Rightarrow> Error + Payload option" where
  "queryTool_sqlite stringify db sql =
     (let completion =
        (case db_all db sql of
           Inr result \<Rightarrow> \<lparr>contents = [TextContent ''text'' (stringify result)], isError = False\<rparr>
         | Inl err \<Rightarrow>
             \<lparr>contents = [TextContent ''text'' (''Error: '' @ error_toString err)],
              isError = True\<rparr>)
      in case db_close db of
           Some closeErr \<Rightarrow> Inl closeErr
         | None \<Rightarrow> Inr (Some completion))"

section \<open>The server object: start-up and shutdown\<close>

text \<open>
  \<open>envSchema.safeParse(process.env)\<close>: each of the four variables must be a string
  (else the issue is that it is required) of at least one character (else the issue
  carries the message the schema gives for it). The parse succeeds when there is no issue.
\<close>

datatype ZodIssue = Required string | TooSmall string string

definition checkString :: "env \<Rightarrow> string \<Rightarrow> string \<Rightarrow> ZodIssue list" where
  "checkString e key msg =
     (case e key of
        None \<Rightarrow> [Required key]
      | Some v \<Rightarrow> if length v < 1 then [TooSmall key msg] else [])"

definition envIssues :: "env \<Rightarrow> ZodIssue list" where
  "envIssues e =
     checkString e ''ADX_CLUSTER_NAME'' ''Cluster name is required'' @
     checkString e ''ADX_CLIENT_ID'' ''Client ID is required'' @
     checkString e ''ADX_CLIENT_SECRET'' ''Client secret is required'' @
     checkString e ''ADX_TENANT_ID'' ''Tenant ID is required''"

record EnvData =
  clusterName :: string
  clientId :: string
  clientSecret :: string
  tenantId :: string

definition safeParse :: "env \<Rightarrow> ZodIssue list + EnvData" where
  "safeParse e =
     (case (e ''ADX_CLUSTER_NAME'', e ''ADX_CLIENT_ID'', e ''ADX_CLIENT_SECRET'', e ''ADX_TENANT_ID'') of
        (Some cn, Some ci, Some cs, Some ti) \<Rightarrow>
          if envIssues e = []
          then Inr \<lparr>clusterName = cn, clientId = ci, clientSecret = cs, tenantId = ti\<rparr>
          else Inl (envIssues e)
      | _ \<Rightarrow> Inl (envIssues e))"

text \<open>What \<open>KustoConnectionStringBuilder.withAadApplicationKeyAuthentication\<close> is given.\<close>

record KustoConnectionStringBuilder =
  dataSource :: string
  applicationClientId :: string
  applicationKey :: string
  authorityId :: string

definition withAadApplicationKeyAuthentication ::
    "string \<Rightarrow> string \<Rightarrow> string \<Rightarrow> string \<Rightarrow> KustoConnectionStringBuilder" where
  "withAadApplicationKeyAuthentication url appId appKey authority =
     \<lparr>dataSource = url, applicationClientId = appId, applicationKey = appKey,
      authorityId = authority\<rparr>"

text \<open>A line written with \<open>console.error\<close>: its text and the formatted issues.\<close>

datatype LogEntry = ConsoleError string "ZodIssue list"

text \<open>
  The state the three iterations share: the field \<open>client\<close> of the object, and, of the
  process around it, the environment, the lines written to the console, the clients
  whose \<open>close()\<close> was called, and whether the server is connected to its transport.
\<close>

record Process =
  client :: "Client option"
  processEnv :: env
  console :: "LogEntry list"
  closed :: "Client list"
  transport :: bool

text \<open>
  \<open>connect()\<close>. The template and low-level iterations first call dotenv's \<open>config()\<close>,
  which rewrites the environment (\<open>config\<close>, a parameter); the local-store iteration
  does not (\<open>config\<close> is the identity there). \<open>newClient\<close> is the constructor of the
  Kusto client.
\<close>

definition connect ::
    "(env \<Rightarrow> env) \<Rightarrow> (KustoConnectionStringBuilder \<Rightarrow> Client) \<Rightarrow> 'a Process_scheme \<Rightarrow> 'a Process_scheme" where
  "connect config newClient s =
     (let s1 = s\<lparr>processEnv := config (processEnv s)\<rparr> in
      case safeParse (processEnv s1) of
        Inr d \<Rightarrow>
          s1\<lparr>client := Some (newClient (withAadApplicationKeyAuthentication
                 (''https://'' @ clusterName d @ ''.kusto.windows.net'')
                 (clientId d) (clientSecret d) (tenantId d)))\<rparr>
      | Inl issues \<Rightarrow>
          s1\<lparr>console := console s1 @
                 [ConsoleError ''Environment variable validation failed:'' issues]\<rparr>)"

text \<open>\<open>disconnect()\<close>\<close>

definition disconnect :: "'a Process_scheme \<Rightarrow> 'a Process_scheme" where
  "disconnect s =
     (case client s of
        None \<Rightarrow> s
      | Some c \<Rightarrow> s\<lparr>closed := closed s @ [c], client := None\<rparr>)"

text \<open>
  \<open>start()\<close> connects the server to the stdio transport, which belongs to the server
  library and may reject (\<open>failure\<close>).
\<close>

definition start :: "Error option \<Rightarrow> 'a Process_scheme \<Rightarrow> Error + 'a Process_scheme" where
  "start failure s =
     (case failure of
        Some err \<Rightarrow> Inl err
      | None \<Rightarrow> Inr (s\<lparr>transport := True\<rparr>))"

text \<open>
  The entry point (\<open>part_001\<close>): when the promise of \<open>createServer()\<close> rejects, the
  error is logged and the process exits with status 1; otherwise nothing exits it.
\<close>

definition exitStatus :: "Error + 's \<Rightarrow> nat option" where
  "exitStatus r = (case r of Inl err \<Rightarrow> Some 1 | Inr s \<Rightarrow> None)"

subsection \<open>The low-level iteration\<close>

text \<open>
  The request types of the server library that the code installs handlers for, and what
  it installs: a list handler answers with fixed descriptors (address or template, name,
  description), a read handler is run on the address of the request.
\<close>

datatype RequestSchema =
    ListResourcesRequestSchema
  | ListResourceTemplatesRequestSchema
  | ReadResourceRequestSchema

datatype Handler =
    ListHandler "(string \<times> string \<times> string) list"
  | ReadHandler "Client option \<Rightarrow> env \<Rightarrow> string \<Rightarrow> Completion"

record LowLevelServer = Process +
  requestHandlers :: "RequestSchema \<rightharpoonup> Handler"

text \<open>
  \<open>server.setRequestHandler(schema, handler)\<close>: the library keeps one handler for each
  request type, and setting one replaces the one that was there.
\<close>

definition setRequestHandler :: "RequestSchema \<Rightarrow> Handler \<Rightarrow> LowLevelServer \<Rightarrow> LowLevelServer" where
  "setRequestHandler schema h s = s\<lparr>requestHandlers := (requestHandlers s)(schema \<mapsto> h)\<rparr>"

definition registerResources :: "LowLevelServer \<Rightarrow> LowLevelServer" where
  "registerResources s =
     setRequestHandler ReadResourceRequestSchema (ReadHandler readResource_config_lowlevel)
       (setRequestHandler ListResourcesRequestSchema
          (ListHandler [(''config://azure-data-explorer-creds'', ''Config'',
                         ''Config of the Azure Data Explorer'')]) s)"

definition registerResourceTemplates :: "LowLevelServer \<Rightarrow> LowLevelServer" where
  "registerResourceTemplates s =
     setRequestHandler ReadResourceRequestSchema (ReadHandler readResource_templates_lowlevel)
       (setRequestHandler ListResourceTemplatesRequestSchema
          (ListHandler
             [(''schema://adx/{db}'', ''Schema of the db'',
               ''List down the tables in the given db''),
              (''schema://adx/{db}/{table}'', ''Schema of the table'',
               ''Schema of the given db and table''),
              (''schema://adx/{db}/functions'', ''Functions of the db'',
               ''List all functions of the given db'')]) s)"

text \<open>The body of \<open>registerQueryTool\<close> is commented out in this iteration.\<close>

definition registerQueryTool_lowlevel :: "LowLevelServer \<Rightarrow> LowLevelServer" where
  "registerQueryTool_lowlevel s = s"

definition initialize_lowlevel :: "LowLevelServer \<Rightarrow> LowLevelServer" where
  "initialize_lowlevel s =
     registerQueryTool_lowlevel (registerResourceTemplates (registerResources s))"

text \<open>\<open>new AdxMcpServer()\<close> in a process whose environment is \<open>e\<close>.\<close>

definition new_lowlevel :: "env \<Rightarrow> LowLevelServer" where
  "new_lowlevel e =
     \<lparr>client = None, processEnv = e, console = [], closed = [], transport = False,
      requestHandlers = Map.empty\<rparr>"

definition createServer_lowlevel ::
    "Error option \<Rightarrow> (env \<Rightarrow> env) \<Rightarrow> (KustoConnectionStringBuilder \<Rightarrow> Client) \<Rightarrow> env \<Rightarrow> Error + LowLevelServer" where
  "createServer_lowlevel failure config newClient e =
     (case start failure (initialize_lowlevel (new_lowlevel e)) of
        Inl err \<Rightarrow> Inl err
      | Inr s \<Rightarrow> Inr (connect config newClient s))"

text \<open>
  A \<open>resources/read\<close> request for the address \<open>uri\<close>: the handler installed for that
  request type runs with the client and the environment as they are then. \<open>None\<close>: no
  handler is installed, and the library answers by itself.
\<close>

definition readResource_lowlevel :: "LowLevelServer \<Rightarrow> string \<Rightarrow> Completion option" where
  "readResource_lowlevel s uri =
     (case requestHandlers s ReadResourceRequestSchema of
        Some (ReadHandler h) \<Rightarrow> Some (h (client s) (processEnv s) uri)
      | _ \<Rightarrow> None)"

subsection \<open>The template iteration\<close>

text \<open>
  The high-level server keeps what \<open>server.resource\<close> and \<open>server.tool\<close> register:
  for a resource its name and its address or template, for a tool its name. The handler
  registered under a name is the definition above that carries the name.
\<close>

record McpServer = Process +
  resources :: "(string \<times> string) list"
  tools :: "string list"

definition resource :: "string \<Rightarrow> string \<Rightarrow> McpServer \<Rightarrow> McpServer" where
  "resource nm address s = s\<lparr>resources := resources s @ [(nm, address)]\<rparr>"

definition tool :: "string \<Rightarrow> McpServer \<Rightarrow> McpServer" where
  "tool nm s = s\<lparr>tools := tools s @ [nm]\<rparr>"

definition registerSchemaResourceTemplate :: "McpServer \<Rightarrow> McpServer" where
  "registerSchemaResourceTemplate s =
     resource ''Functions of the db'' ''functions://adx/{db}/functions''
       (resource ''Schema of the table'' ''schema://adx/{db}/{table}''
          (resource ''Schema of the db'' ''schema://adx/{db}'' s))"

definition registerConfigResource :: "McpServer \<Rightarrow> McpServer" where
  "registerConfigResource s = resource ''config'' ''config://azure-data-explorer-creds'' s"

definition registerQueryTool :: "McpServer \<Rightarrow> McpServer" where
  "registerQueryTool s = tool ''query'' s"

definition initialize_template :: "McpServer \<Rightarrow> McpServer" where
  "initialize_template s =
     registerQueryTool (registerConfigResource (registerSchemaResourceTemplate s))"

definition new_template :: "env \<Rightarrow> McpServer" where
  "new_template e =
     \<lparr>client = None, processEnv = e, console = [], closed = [], transport = False,
      resources = [], tools = []\<rparr>"

definition createServer_template ::
    "Error option \<Rightarrow> (env \<Rightarrow> env) \<Rightarrow> (KustoConnectionStringBuilder \<Rightarrow> Client) \<Rightarrow> env \<Rightarrow> Error + McpServer" where
  "createServer_template failure config newClient e =
     (case start failure (initialize_template (new_template e)) of
        Inl err \<Rightarrow> Inl err
      | Inr s \<Rightarrow> Inr (connect config newClient s))"

section \<open>Clients used in the examples\<close>

text \<open>A client whose every call answers one table that names the query and the database.\<close>

definition echoClient :: Client where
  "echoClient =
     \<lparr>execute = (\<lambda>d q. Inr \<lparr>primaryResults = [KustoResultTable (q @ '' on '' @ d)]\<rparr>)\<rparr>"

text \<open>A client whose every call rejects.\<close>

definition failingClient :: Client where
  "failingClient = \<lparr>execute = (\<lambda>d q. Inl (new_Error ''Request failed''))\<rparr>"

section \<open>Observations and example inputs\<close>

text \<open>
  The text of the entry for the client secret in what a config handler returned: the
  entry is found by its address.
\<close>

definition secretText :: "Completion \<Rightarrow> string option" where
  "secretText r =
     (case fst r of
        Inr (Some p) \<Rightarrow>
          map_of (map (\<lambda>c. (contentUri c, contentText c)) (contents p))
            (Some ''config://azure-data-explorer-creds/client-secret'')
      | _ \<Rightarrow> None)"

text \<open>An environment that sets the client secret and nothing else.\<close>

definition secretEnv :: "string \<Rightarrow> env" where
  "secretEnv secret = Map.empty(''ADX_CLIENT_SECRET'' \<mapsto> secret)"

text \<open>An environment that sets three of the four variables.\<close>

definition noTenantEnv :: env where
  "noTenantEnv =
     [''ADX_CLUSTER_NAME'' \<mapsto> ''help'', ''ADX_CLIENT_ID'' \<mapsto> ''app'',
      ''ADX_CLIENT_SECRET'' \<mapsto> ''hunter2'']"

text \<open>The variables \<open>envSchema\<close> requires.\<close>

definition requiredVars :: "string list" where
  "requiredVars =
     [''ADX_CLUSTER_NAME'', ''ADX_CLIENT_ID'', ''ADX_CLIENT_SECRET'', ''ADX_TENANT_ID'']"

text \<open>The arguments \<open>{ db: "mydb", query: "Table1 | take 5" }\<close> of the query tool.\<close>

definition take5Args :: QueryToolData where
  "take5Args = \<lparr>qt_db = ''mydb'', qt_query = ''Table1 | take 5''\<rparr>"

text \<open>A local store whose \<open>all\<close> rejects and whose \<open>close\<close> resolves.\<close>

definition brokenStore :: "string Db" where
  "brokenStore = \<lparr>db_all = (\<lambda>sql. Inl (new_Error ''no such table: t'')), db_close = None\<rparr>"

section \<open>Facts about the patterns and about \<open>split\<close>\<close>

lemmas regex_defs = showTablesRegex_def showTableSchemaRegex_def showFunctionsRegex_def lits_def

lemma match_here_Lit_mem: "match_here r s \<Longrightarrow> Lit c \<in> set r \<Longrightarrow> c \<in> set s"
  by (induction r s rule: match_here.induct) auto

lemma match_here_WordPlus: "match_here [WordPlus] s = (s \<noteq> [] \<and> list_all is_word s)"
  by (induction s) auto

text \<open>A match needs as many occurrences of a character as the pattern has of its literal.\<close>

lemma match_here_count:
  "match_here r s \<Longrightarrow> length (filter (\<lambda>a. a = Lit c) r) \<le> length (filter (\<lambda>x. x = c) s)"
  by (induction r s rule: match_here.induct) (auto split: if_splits)

lemma test_count:
  "test r s \<Longrightarrow> length (filter (\<lambda>a. a = Lit c) r) \<le> length (filter (\<lambda>x. x = c) s)"
proof (induction r s rule: test.induct)
  case (1 r)
  then show ?case using match_here_count [of r "[]" c] by simp
next
  case (2 r x xs)
  from "2.prems" have "match_here r (x # xs) \<or> test r xs" by simp
  then show ?case
  proof
    assume "match_here r (x # xs)"
    then show ?thesis by (rule match_here_count)
  next
    assume "test r xs"
    then have "length (filter (\<lambda>a. a = Lit c) r) \<le> length (filter (\<lambda>x. x = c) xs)"
      by (rule "2.IH")
    then show ?thesis by simp
  qed
qed

lemma length_split: "length (split sep s) = Suc (length (filter (\<lambda>x. x = sep) s))"
  by (induction s) (auto split: list.splits)

lemma split_no_sep: "sep \<notin> set s \<Longrightarrow> split sep s = [s]"
  by (induction s) auto

lemma split_append_sep: "sep \<notin> set s \<Longrightarrow> split sep (s @ sep # t) = s # split sep t"
  by (induction s) auto

text \<open>
  An address that one of the three patterns matches has three slashes at least, so its
  fourth piece exists.
\<close>

lemma test_split_index3:
  assumes "test showTablesRegex uri \<or> test showTableSchemaRegex uri \<or> test showFunctionsRegex uri"
  shows "at (split CHR ''/'' uri) 3 \<noteq> None"
proof -
  have "3 \<le> length (filter (\<lambda>x. x = CHR ''/'') uri)"
    using assms test_count [of showTablesRegex uri "CHR ''/''"]
      test_count [of showTableSchemaRegex uri "CHR ''/''"]
      test_count [of showFunctionsRegex uri "CHR ''/''"]
    by (auto simp: regex_defs)
  then show ?thesis by (simp add: at_def length_split)
qed

lemma slash_not_word: "\<not> is_word CHR ''/''"
  by (simp add: is_word_def)

lemma is_word_not_slash: "list_all is_word w \<Longrightarrow> CHR ''/'' \<notin> set w"
  by (induction w) (auto simp: slash_not_word)

text \<open>No pattern matches a string with fewer than three slashes.\<close>

lemma not_test_few_slashes:
  assumes "length (filter (\<lambda>x. x = CHR ''/'') s) < 3"
  shows "\<not> test showTablesRegex s" "\<not> test showTableSchemaRegex s" "\<not> test showFunctionsRegex s"
  using assms test_count [of showTablesRegex s "CHR ''/''"]
    test_count [of showTableSchemaRegex s "CHR ''/''"]
    test_count [of showFunctionsRegex s "CHR ''/''"]
  by (auto simp: regex_defs)

subsection \<open>Addresses with one segment after \<open>schema://adx/\<close>\<close>

lemma tables_pattern_one_segment:
  assumes "CHR ''/'' \<notin> set seg"
  shows "test showTablesRegex (''schema://adx/'' @ seg) = (seg \<noteq> [] \<and> list_all is_word seg)"
proof -
  have "filter (\<lambda>x. x = CHR ''/'') seg = []"
    using assms by (auto simp: filter_empty_conv)
  then have "\<not> test showTablesRegex seg"
    by (intro not_test_few_slashes) simp
  then show ?thesis
    by (simp add: regex_defs match_here_WordPlus)
qed

lemma not_schema_pattern_one_segment:
  assumes "CHR ''/'' \<notin> set seg"
  shows "\<not> test showTableSchemaRegex (''schema://adx/'' @ seg)"
proof -
  have "filter (\<lambda>x. x = CHR ''/'') seg = []"
    using assms by (auto simp: filter_empty_conv)
  then have a: "\<not> test showTableSchemaRegex seg"
    by (intro not_test_few_slashes) simp
  have b: "\<not> match_here [WordPlus, Lit CHR ''/'', WordPlus] seg"
    using assms match_here_Lit_mem [of "[WordPlus, Lit CHR ''/'', WordPlus]" seg "CHR ''/''"]
    by auto
  show ?thesis using a b by (simp add: regex_defs)
qed

lemma split_one_segment:
  "CHR ''/'' \<notin> set seg \<Longrightarrow>
   split CHR ''/'' (''schema://adx/'' @ seg) = [''schema:'', [], ''adx'', seg]"
  by (simp add: split_no_sep)

subsection \<open>Addresses with two segments after \<open>schema://adx/\<close>\<close>

lemma match_two_segments:
  assumes "CHR ''/'' \<notin> set db"
  shows "match_here [WordPlus, Lit CHR ''/'', WordPlus] (db @ ''/'' @ t) =
           (db \<noteq> [] \<and> list_all is_word db \<and> t \<noteq> [] \<and> list_all is_word t)"
  using assms
proof (induction db)
  case Nil
  then show ?case by (simp add: slash_not_word)
next
  case (Cons x db)
  show ?case
  proof (cases db)
    case Nil
    then show ?thesis by (auto simp: match_here_WordPlus slash_not_word)
  next
    case (Cons y ys)
    with Cons.prems have "y \<noteq> CHR ''/''" by auto
    with Cons Cons.IH Cons.prems show ?thesis by auto
  qed
qed

lemma few_slashes_two_segments:
  assumes "CHR ''/'' \<notin> set db" and "CHR ''/'' \<notin> set t"
  shows "length (filter (\<lambda>x. x = CHR ''/'') (db @ ''/'' @ t)) < 3"
proof -
  have "filter (\<lambda>x. x = CHR ''/'') db = []" and "filter (\<lambda>x. x = CHR ''/'') t = []"
    using assms by (auto simp: filter_empty_conv)
  then show ?thesis by simp
qed

lemma not_tables_pattern_two_segments:
  assumes "CHR ''/'' \<notin> set db" and "CHR ''/'' \<notin> set t"
  shows "\<not> test showTablesRegex (''schema://adx/'' @ db @ ''/'' @ t)"
proof -
  have "\<not> test showTablesRegex (db @ ''/'' @ t)"
    using few_slashes_two_segments [OF assms] by (rule not_test_few_slashes)
  moreover have "\<not> list_all is_word (db @ ''/'' @ t)"
    by (simp add: slash_not_word)
  ultimately show ?thesis
    by (simp add: regex_defs match_here_WordPlus)
qed

lemma schema_pattern_two_segments:
  assumes "CHR ''/'' \<notin> set db" and "CHR ''/'' \<notin> set t"
  shows "test showTableSchemaRegex (''schema://adx/'' @ db @ ''/'' @ t) =
           (db \<noteq> [] \<and> list_all is_word db \<and> t \<noteq> [] \<and> list_all is_word t)"
proof -
  have "\<not> test showTableSchemaRegex (db @ ''/'' @ t)"
    using few_slashes_two_segments [OF assms] by (rule not_test_few_slashes)
  then show ?thesis
    using match_two_segments [OF assms(1), of t] by (simp add: regex_defs)
qed

lemma split_two_segments:
  assumes "CHR ''/'' \<notin> set db" and "CHR ''/'' \<notin> set t"
  shows "split CHR ''/'' (''schema://adx/'' @ db @ ''/'' @ t) = [''schema:'', [], ''adx'', db, t]"
proof -
  have "split CHR ''/'' (db @ ''/'' @ t) = [db, t]"
    using assms by (simp add: split_append_sep split_no_sep)
  then show ?thesis by simp
qed

subsection \<open>The third pattern is shadowed by the second\<close>

lemma match_here_mono_tail:
  "(\<And>s. match_here r1 s \<Longrightarrow> match_here r2 s) \<Longrightarrow> match_here (a # r1) s \<Longrightarrow> match_here (a # r2) s"
proof (induction s)
  case Nil
  then show ?case by (cases a) auto
next
  case (Cons x xs)
  then show ?case by (cases a) auto
qed

lemma match_here_mono_prefix:
  "(\<And>s. match_here r1 s \<Longrightarrow> match_here r2 s) \<Longrightarrow> match_here (p @ r1) s \<Longrightarrow> match_here (p @ r2) s"
proof (induction p arbitrary: s)
  case Nil
  then show ?case by simp
next
  case (Cons a p)
  show ?case
    using Cons.prems(2) match_here_mono_tail [of "p @ r1" "p @ r2" a s] Cons.IH Cons.prems(1)
    by auto
qed

lemma test_mono:
  "(\<And>s. match_here r1 s \<Longrightarrow> match_here r2 s) \<Longrightarrow> test r1 s \<Longrightarrow> test r2 s"
  by (induction s) auto

lemma functions_is_word: "match_here (lits ''functions'') s \<Longrightarrow> match_here [WordPlus] s"
proof -
  assume "match_here (lits ''functions'') s"
  then have "s = ''functions''"
    by (auto simp: lits_def elim!: match_here.elims)
  then show ?thesis by (simp add: match_here_WordPlus is_word_def)
qed

text \<open>Every address the functions pattern matches, the table pattern matches.\<close>

lemma functions_pattern_shadowed: "test showFunctionsRegex uri \<Longrightarrow> test showTableSchemaRegex uri"
proof -
  have "match_here showTableSchemaRegex s" if "match_here showFunctionsRegex s" for s
    using that functions_is_word
      match_here_mono_prefix [of "lits ''functions''" "[WordPlus]"
        "lits ''schema://adx/'' @ [WordPlus, Lit CHR ''/'']" s]
    by (simp add: regex_defs)
  then show "test showFunctionsRegex uri \<Longrightarrow> test showTableSchemaRegex uri"
    by (rule test_mono)
qed

text \<open>
  So the third branch of the low-level read handler never runs: whatever the address and
  the client, the handler does not issue \<open>.show functions\<close>.
\<close>

lemma show_functions_never_issued:
  "(d, ''.show functions'') \<notin> set (snd (readResource_templates_lowlevel cl e uri))"
proof (cases "test showFunctionsRegex uri")
  case True
  then have "test showTableSchemaRegex uri" by (rule functions_pattern_shadowed)
  then show ?thesis
    by (auto simp: readResource_templates_lowlevel_def Let_def
        split: option.splits sum.splits if_splits)
next
  case False
  then show ?thesis
    by (auto simp: readResource_templates_lowlevel_def Let_def
        split: option.splits sum.splits if_splits)
qed

section \<open>The functions address\<close>

text \<open>
  C1. The claim: a read of an address whose last segment is \<open>functions\<close> is answered by
  the functions-list behaviour, with the query \<open>.show functions\<close> against the database
  of the address. The code, at \<open>schema://adx/mydb/functions\<close> with a client in place:
  the low-level read handler tries the table pattern before the functions pattern, the
  table pattern matches, and the one remote call is \<open>functions | getschema\<close> against
  \<open>mydb\<close>; the payload is named as the schema of a table called \<open>functions\<close>. In the
  template iteration the handler of \<open>schema://adx/{db}/{table}\<close>, given the table
  \<open>functions\<close>, issues the same query.
\<close>

theorem functions_address_issues_getschema:
  "snd (readResource_templates_lowlevel (Some c) e ''schema://adx/mydb/functions'')
     = [(''mydb'', ''functions | getschema'')]
   \<and> fst (readResource_templates_lowlevel (Some echoClient) e ''schema://adx/mydb/functions'')
     = Inr (Some (textResource ''schema://adx/mydb/functions'' ''Schema of the table functions''
                    ''functions | getschema on mydb''))
   \<and> snd (schemaOfTheTable_template (Some c) href \<lparr>rt_db = ''mydb'', rt_table = Some ''functions''\<rparr>)
     = [(''mydb'', ''functions | getschema'')]"
  by (simp add: readResource_templates_lowlevel_def schemaOfTheTable_template_def regex_defs
      is_word_def at_def firstResult_def echoClient_def truthy_def interpolate_def
      split: sum.split list.split)

section \<open>The config resource\<close>

lemma secretText_config_template:
  "secretText (config_template e href) =
     Some (if truthy (e ''ADX_CLIENT_SECRET'') then ''******'' else ''Not set'')"
  by (simp add: secretText_def config_template_def configContents_def)

lemma secretText_config_lowlevel:
  "prefix ''config://azure-data-explorer-creds'' uri \<Longrightarrow>
   secretText (readResource_config_lowlevel cl e uri) =
     Some (if truthy (e ''ADX_CLIENT_SECRET'') then ''******'' else ''Not set'')"
  by (simp add: secretText_def readResource_config_lowlevel_def configContents_def)

text \<open>The local-store iteration has no mask: the text of the entry is the secret itself.\<close>

lemma secretText_config_sqlite:
  "secretText (config_sqlite e href) = Some (interpolate (e ''ADX_CLIENT_SECRET''))"
  by (simp add: secretText_def config_sqlite_def)

text \<open>
  C2, as amended. The config handlers of the template and the low-level iteration: when
  the client secret is set to a non-empty string, the text of its entry is the fixed mask
  \<open>******\<close>, whatever the secret is, so it differs from the secret unless the secret is
  itself \<open>******\<close>; when the variable is unset or empty, the text is \<open>Not set\<close>.
\<close>

theorem config_secret_mask:
  "(e ''ADX_CLIENT_SECRET'' = Some secret \<and> secret \<noteq> [] \<longrightarrow>
      secretText (config_template e href) = Some ''******''
      \<and> secretText (readResource_config_lowlevel cl e ''config://azure-data-explorer-creds'')
          = Some ''******''
      \<and> (secret \<noteq> ''******'' \<longrightarrow>
            secretText (config_template e href) \<noteq> Some secret
            \<and> secretText (readResource_config_lowlevel cl e ''config://azure-data-explorer-creds'')
                \<noteq> Some secret))
   \<and> (e ''ADX_CLIENT_SECRET'' = None \<or> e ''ADX_CLIENT_SECRET'' = Some [] \<longrightarrow>
      secretText (config_template e href) = Some ''Not set''
      \<and> secretText (readResource_config_lowlevel cl e ''config://azure-data-explorer-creds'')
          = Some ''Not set'')"
  by (auto simp: secretText_config_template secretText_config_lowlevel truthy_def)

text \<open>The mask at the secret \<open>hunter2\<close>, and \<open>Not set\<close> in the empty environment.\<close>

theorem config_secret_mask_witness:
  "secretText (config_template (secretEnv ''hunter2'') ''config://azure-data-explorer-creds'')
     = Some ''******''
   \<and> secretText (config_template (secretEnv ''hunter2'') ''config://azure-data-explorer-creds'')
     \<noteq> Some ''hunter2''
   \<and> secretText (config_template Map.empty ''config://azure-data-explorer-creds'')
     = Some ''Not set''"
  using config_secret_mask [of "secretEnv ''hunter2''" "''hunter2''"
      "''config://azure-data-explorer-creds''" None]
    config_secret_mask [of Map.empty "''x''" "''config://azure-data-explorer-creds''" None]
  by (simp add: secretEnv_def)

text \<open>
  C2 as stated fails where the secret is the six asterisks: it is set and non-empty, and
  the text returned for it is equal to it. It fails in the local-store iteration at any
  secret: there the text returned for \<open>hunter2\<close> is \<open>hunter2\<close>.
\<close>

theorem config_secret_mask_counterexample:
  "secretEnv ''******'' ''ADX_CLIENT_SECRET'' = Some ''******''
   \<and> secretText (config_template (secretEnv ''******'') ''config://azure-data-explorer-creds'')
       = secretEnv ''******'' ''ADX_CLIENT_SECRET''
   \<and> secretText (config_sqlite (secretEnv ''hunter2'') ''config://azure-data-explorer-creds'')
       = Some ''hunter2''"
  by (simp add: secretText_config_template secretText_config_sqlite secretEnv_def truthy_def
      interpolate_def)

section \<open>Handlers without a client\<close>

text \<open>
  C3, as amended. When the client is unset, every remote handler throws an error whose
  message says that the client is not initialized, and makes no remote call: the four
  handlers of the template iteration on every input, the read handler of the low-level
  iteration on every address that one of its three patterns matches. None of them
  returns a payload; to throw is all a handler does here, it has no statement that ends
  the process.
\<close>

theorem uninitialized_client_throws:
  "schemaOfTheDb_template None href data = (Inl (new_Error ''Client is not initialized''), [])
   \<and> schemaOfTheTable_template None href data = (Inl (new_Error ''Client is not initialized''), [])
   \<and> functionsOfTheDb_template None href data = (Inl (new_Error ''Client is not initialized''), [])
   \<and> queryTool_template None args = (Inl (new_Error ''Client is not initialized''), [])
   \<and> (test showTablesRegex uri \<or> test showTableSchemaRegex uri \<or> test showFunctionsRegex uri \<longrightarrow>
        readResource_templates_lowlevel None e uri
          = (Inl (new_Error ''Database client is not initialized''), []))"
  by (simp add: schemaOfTheDb_template_def schemaOfTheTable_template_def
      functionsOfTheDb_template_def queryTool_template_def readResource_templates_lowlevel_def)

theorem uninitialized_client_throws_witness:
  "test showTablesRegex ''schema://adx/mydb''
   \<and> readResource_templates_lowlevel None Map.empty ''schema://adx/mydb''
       = (Inl (new_Error ''Database client is not initialized''), [])
   \<and> queryTool_template None take5Args = (Inl (new_Error ''Client is not initialized''), [])"
proof -
  have h: "test showTablesRegex ''schema://adx/mydb''"
    by (simp add: regex_defs is_word_def)
  show ?thesis
    using h uninitialized_client_throws [of "''schema://adx/mydb''"
        "\<lparr>rt_db = ''mydb'', rt_table = None\<rparr>" take5Args "''schema://adx/mydb''" Map.empty]
    by simp
qed

text \<open>
  C3 as stated fails at the query tool with no client: what the handler does is throw,
  it returns nothing.
\<close>

theorem uninitialized_client_counterexample:
  "isl (fst (queryTool_template None take5Args))
   \<and> queryTool_template None take5Args = (Inl (new_Error ''Client is not initialized''), [])"
  by (simp add: queryTool_template_def)

section \<open>The query tool\<close>

text \<open>
  C4, as amended. The query tool of the template iteration has no \<open>catch\<close>: when the
  remote call raises, the handler throws that same error, after that one call, and does
  nothing else. The query tool of the local-store iteration catches the error of its
  store call and, the store closing without error, returns a payload with the error flag
  set whose text is \<open>Error: \<close> followed by the description of the error.
\<close>

theorem queryTool_remote_error:
  "(execute c (qt_db args) (qt_query args) = Inl err \<longrightarrow>
      queryTool_template (Some c) args = (Inl err, [(qt_db args, qt_query args)]))
   \<and> (db_all store sql = Inl err \<and> db_close store = None \<longrightarrow>
      queryTool_sqlite stringify store sql
        = Inr (Some \<lparr>contents = [TextContent ''text'' (''Error: '' @ error_toString err)],
                      isError = True\<rparr>))"
  by (simp add: queryTool_template_def firstResult_def queryTool_sqlite_def)

theorem queryTool_remote_error_witness:
  "queryTool_template (Some failingClient) take5Args
     = (Inl (new_Error ''Request failed''), [(''mydb'', ''Table1 | take 5'')])
   \<and> queryTool_sqlite id brokenStore ''select * from t''
     = Inr (Some \<lparr>contents = [TextContent ''text'' ''Error: Error: no such table: t''],
                   isError = True\<rparr>)"
  using queryTool_remote_error [of failingClient take5Args "new_Error ''Request failed''",
      THEN conjunct1]
    queryTool_remote_error [of failingClient take5Args "new_Error ''no such table: t''"
      brokenStore "''select * from t''" id, THEN conjunct2]
  by (simp add: failingClient_def take5Args_def brokenStore_def new_Error_def error_toString_def)

text \<open>
  C4 as stated fails at a client whose call rejects: the handler of the remote query tool
  throws the error of the call, it returns no payload.
\<close>

theorem queryTool_remote_error_counterexample:
  "execute failingClient (qt_db take5Args) (qt_query take5Args) = Inl (new_Error ''Request failed'')
   \<and> isl (fst (queryTool_template (Some failingClient) take5Args))
   \<and> queryTool_template (Some failingClient) take5Args
       = (Inl (new_Error ''Request failed''), [(''mydb'', ''Table1 | take 5'')])"
  by (simp add: queryTool_template_def firstResult_def failingClient_def take5Args_def)

text \<open>
  C5. With a client in place, the query tool makes one remote call, whose database and
  query text are the caller's \<open>db\<close> and \<open>query\<close> as they came; when the call answers
  and the answer has a first result table, the handler returns one text entry holding
  that table's text rendering.
\<close>

theorem queryTool_forwards_verbatim:
  "snd (queryTool_template (Some c) args) = [(qt_db args, qt_query args)]
   \<and> (execute c (qt_db args) (qt_query args) = Inr response \<and> primaryResults response = t # ts \<longrightarrow>
        fst (queryTool_template (Some c) args)
          = Inr (Some \<lparr>contents = [TextContent ''text'' (toString t)], isError = False\<rparr>))"
  by (auto simp: queryTool_template_def firstResult_def split: sum.splits list.splits)

theorem queryTool_forwards_verbatim_witness:
  "snd (queryTool_template (Some echoClient) take5Args) = [(''mydb'', ''Table1 | take 5'')]
   \<and> fst (queryTool_template (Some echoClient) take5Args)
       = Inr (Some \<lparr>contents = [TextContent ''text'' ''Table1 | take 5 on mydb''],
                     isError = False\<rparr>)"
  using queryTool_forwards_verbatim [of echoClient take5Args
      "\<lparr>primaryResults = [KustoResultTable ''Table1 | take 5 on mydb'']\<rparr>"
      "KustoResultTable ''Table1 | take 5 on mydb''" "[]"]
  by (simp add: echoClient_def take5Args_def)

section \<open>The schema addresses\<close>

text \<open>What the low-level read handler does at an address with one segment.\<close>

lemma lowlevel_one_segment_word:
  assumes "db \<noteq> []" and "list_all is_word db"
  shows "readResource_templates_lowlevel (Some c) e (''schema://adx/'' @ db) =
           (case firstResult c db ''.show tables'' of
              Inl err \<Rightarrow> (Inl err, [(db, ''.show tables'')])
            | Inr result \<Rightarrow>
                (Inr (Some (textResource (''schema://adx/'' @ db)
                              (''Schema of the db '' @ db) result)),
                 [(db, ''.show tables'')]))"
proof -
  let ?uri = "''schema://adx/'' @ db"
  have slash: "CHR ''/'' \<notin> set db"
    using assms(2) by (rule is_word_not_slash)
  have m: "test showTablesRegex ?uri = True"
    using assms tables_pattern_one_segment [OF slash] by simp
  have sp: "split CHR ''/'' ?uri = [''schema:'', [], ''adx'', db]"
    using slash by (rule split_one_segment)
  have s: "at (split CHR ''/'' ?uri) 3 = Some db"
    unfolding sp by (simp add: at_def)
  show ?thesis
    unfolding readResource_templates_lowlevel_def m s using assms(1) by simp
qed

lemma lowlevel_one_segment_other:
  assumes "CHR ''/'' \<notin> set db" and "\<not> (db \<noteq> [] \<and> list_all is_word db)"
  shows "readResource_templates_lowlevel cl e (''schema://adx/'' @ db) = (Inr None, [])"
proof -
  let ?uri = "''schema://adx/'' @ db"
  have m: "test showTablesRegex ?uri = False"
    using assms(2) tables_pattern_one_segment [OF assms(1)] by simp
  have n: "test showTableSchemaRegex ?uri = False"
    using not_schema_pattern_one_segment [OF assms(1)] by simp
  have f: "test showFunctionsRegex ?uri = False"
    using n functions_pattern_shadowed [of ?uri] by blast
  show ?thesis
    unfolding readResource_templates_lowlevel_def m n f by simp
qed

text \<open>
  C6, as amended. For every address \<open>schema://adx/{db}\<close> whose one segment is a
  non-empty run of word characters (letters, digits, underscore), the low-level read
  handler, with a client in place, makes exactly one remote call, \<open>.show tables\<close>
  against that database, and, when the call answers with a first result table, returns
  that table's text rendering; at a segment with any other character it makes no call and
  returns \<open>undefined\<close>. The handler that the template iteration registers for
  \<open>schema://adx/{db}\<close> makes that call and returns that rendering for whatever
  database it is handed.
\<close>

theorem db_address_shows_tables:
  "(db \<noteq> [] \<and> list_all is_word db \<longrightarrow>
      snd (readResource_templates_lowlevel (Some c) e (''schema://adx/'' @ db))
        = [(db, ''.show tables'')]
      \<and> (execute c db ''.show tables'' = Inr response \<and> primaryResults response = t # ts \<longrightarrow>
           fst (readResource_templates_lowlevel (Some c) e (''schema://adx/'' @ db))
             = Inr (Some (textResource (''schema://adx/'' @ db) (''Schema of the db '' @ db)
                            (toString t)))))
   \<and> (CHR ''/'' \<notin> set db \<and> \<not> (db \<noteq> [] \<and> list_all is_word db) \<longrightarrow>
      readResource_templates_lowlevel (Some c) e (''schema://adx/'' @ db) = (Inr None, []))
   \<and> snd (schemaOfTheDb_template (Some c) href \<lparr>rt_db = db, rt_table = None\<rparr>)
        = [(db, ''.show tables'')]
   \<and> (execute c db ''.show tables'' = Inr response \<and> primaryResults response = t # ts \<longrightarrow>
        fst (schemaOfTheDb_template (Some c) href \<lparr>rt_db = db, rt_table = None\<rparr>)
          = Inr (Some (textResource href (''List down all tables in the db '' @ db)
                         (toString t))))"
proof -
  have low: "readResource_templates_lowlevel (Some c) e (''schema://adx/'' @ db) =
      (case firstResult c db ''.show tables'' of
         Inl err \<Rightarrow> (Inl err, [(db, ''.show tables'')])
       | Inr result \<Rightarrow>
           (Inr (Some (textResource (''schema://adx/'' @ db) (''Schema of the db '' @ db) result)),
            [(db, ''.show tables'')]))"
    if "db \<noteq> []" "list_all is_word db"
    using that by (rule lowlevel_one_segment_word)
  have none: "readResource_templates_lowlevel (Some c) e (''schema://adx/'' @ db) = (Inr None, [])"
    if "CHR ''/'' \<notin> set db" "\<not> (db \<noteq> [] \<and> list_all is_word db)"
    using that by (rule lowlevel_one_segment_other)
  have 1: "db \<noteq> [] \<and> list_all is_word db \<longrightarrow>
      snd (readResource_templates_lowlevel (Some c) e (''schema://adx/'' @ db))
        = [(db, ''.show tables'')]
      \<and> (execute c db ''.show tables'' = Inr response \<and> primaryResults response = t # ts \<longrightarrow>
           fst (readResource_templates_lowlevel (Some c) e (''schema://adx/'' @ db))
             = Inr (Some (textResource (''schema://adx/'' @ db) (''Schema of the db '' @ db)
                            (toString t))))"
    using low by (auto simp: firstResult_def split: sum.splits list.splits)
  have 2: "snd (schemaOfTheDb_template (Some c) href \<lparr>rt_db = db, rt_table = None\<rparr>)
        = [(db, ''.show tables'')]"
    by (simp add: schemaOfTheDb_template_def truthy_def split: sum.splits)
  have 3: "execute c db ''.show tables'' = Inr response \<and> primaryResults response = t # ts \<longrightarrow>
        fst (schemaOfTheDb_template (Some c) href \<lparr>rt_db = db, rt_table = None\<rparr>)
          = Inr (Some (textResource href (''List down all tables in the db '' @ db)
                         (toString t)))"
    by (simp add: schemaOfTheDb_template_def firstResult_def truthy_def)
  from 1 none 2 3 show ?thesis by blast
qed

text \<open>The address \<open>schema://adx/mydb\<close>, and the address \<open>schema://adx/my_db-2\<close>.\<close>

theorem db_address_shows_tables_witness:
  "snd (readResource_templates_lowlevel (Some echoClient) Map.empty ''schema://adx/mydb'')
     = [(''mydb'', ''.show tables'')]
   \<and> fst (readResource_templates_lowlevel (Some echoClient) Map.empty ''schema://adx/mydb'')
     = Inr (Some (textResource ''schema://adx/mydb'' ''Schema of the db mydb''
                    ''.show tables on mydb''))
   \<and> readResource_templates_lowlevel (Some echoClient) Map.empty ''schema://adx/my_db-2''
     = (Inr None, [])"
proof -
  have h1: "''mydb'' \<noteq> [] \<and> list_all is_word ''mydb''" by (simp add: is_word_def)
  have h2: "CHR ''/'' \<notin> set ''my_db-2'' \<and> \<not> (''my_db-2'' \<noteq> [] \<and> list_all is_word ''my_db-2'')"
    by (simp add: is_word_def)
  show ?thesis
    using h1 h2
      db_address_shows_tables [of "''mydb''" echoClient Map.empty
        "\<lparr>primaryResults = [KustoResultTable ''.show tables on mydb'']\<rparr>"
        "KustoResultTable ''.show tables on mydb''" "[]" "''schema://adx/mydb''"]
      db_address_shows_tables [of "''my_db-2''" echoClient Map.empty
        "\<lparr>primaryResults = []\<rparr>" "KustoResultTable []" "[]" "''schema://adx/my_db-2''"]
    by (simp add: echoClient_def)
qed

text \<open>
  C6 as stated fails at \<open>schema://adx/my-db\<close>: the hyphen is no word character, no
  pattern of the low-level handler matches, and the handler returns \<open>undefined\<close>
  without a remote call.
\<close>

theorem db_address_shows_tables_counterexample:
  "readResource_templates_lowlevel (Some echoClient) Map.empty ''schema://adx/my-db''
     = (Inr None, [])
   \<and> snd (readResource_templates_lowlevel (Some echoClient) Map.empty ''schema://adx/my-db'')
       \<noteq> [(''my-db'', ''.show tables'')]"
  by (simp add: readResource_templates_lowlevel_def regex_defs is_word_def)

text \<open>What the low-level read handler does at an address with two segments.\<close>

lemma lowlevel_two_segments_word:
  assumes "db \<noteq> []" and "list_all is_word db" and "table \<noteq> []" and "list_all is_word table"
  shows "readResource_templates_lowlevel (Some c) e (''schema://adx/'' @ db @ ''/'' @ table) =
           (case firstResult c db (table @ '' | getschema'') of
              Inl err \<Rightarrow> (Inl err, [(db, table @ '' | getschema'')])
            | Inr result \<Rightarrow>
                (Inr (Some (textResource (''schema://adx/'' @ db @ ''/'' @ table)
                              (''Schema of the table '' @ table) result)),
                 [(db, table @ '' | getschema'')]))"
proof -
  let ?uri = "''schema://adx/'' @ db @ ''/'' @ table"
  have slash: "CHR ''/'' \<notin> set db" "CHR ''/'' \<notin> set table"
    using assms(2,4) by (simp_all add: is_word_not_slash)
  have n: "test showTablesRegex ?uri = False"
    using not_tables_pattern_two_segments [OF slash] by simp
  have m: "test showTableSchemaRegex ?uri = True"
    using assms schema_pattern_two_segments [OF slash] by simp
  have sp: "split CHR ''/'' ?uri = [''schema:'', [], ''adx'', db, table]"
    using slash by (rule split_two_segments)
  have s3: "at (split CHR ''/'' ?uri) 3 = Some db" and s4: "at (split CHR ''/'' ?uri) 4 = Some table"
    unfolding sp by (simp_all add: at_def)
  show ?thesis
    unfolding readResource_templates_lowlevel_def n m s3 s4 using assms(1,3) by simp
qed

lemma lowlevel_two_segments_other:
  assumes "CHR ''/'' \<notin> set db" and "CHR ''/'' \<notin> set table"
    and "\<not> (db \<noteq> [] \<and> list_all is_word db \<and> table \<noteq> [] \<and> list_all is_word table)"
  shows "readResource_templates_lowlevel cl e (''schema://adx/'' @ db @ ''/'' @ table) = (Inr None, [])"
proof -
  let ?uri = "''schema://adx/'' @ db @ ''/'' @ table"
  have n: "test showTablesRegex ?uri = False"
    using not_tables_pattern_two_segments [OF assms(1,2)] by simp
  have m: "test showTableSchemaRegex ?uri = False"
    using assms(3) schema_pattern_two_segments [OF assms(1,2)] by simp
  have f: "test showFunctionsRegex ?uri = False"
    using m functions_pattern_shadowed [of ?uri] by blast
  show ?thesis
    unfolding readResource_templates_lowlevel_def n m f by simp
qed

text \<open>
  C7, as amended. For every address \<open>schema://adx/{db}/{table}\<close> whose two segments
  are non-empty runs of word characters and whose last segment is not \<open>functions\<close>, the
  low-level read handler, with a client in place, makes exactly one remote call,
  \<open>{table} | getschema\<close> against that database, and, when the call answers with a first
  result table, returns that table's text rendering; where a segment has any other
  character it makes no call and returns \<open>undefined\<close>. The handler that the template
  iteration registers for \<open>schema://adx/{db}/{table}\<close> makes that call and returns
  that rendering for whatever database and non-empty table, other than \<open>functions\<close>, it
  is handed.
\<close>

theorem table_address_gets_schema:
  "(db \<noteq> [] \<and> list_all is_word db \<and> table \<noteq> [] \<and> list_all is_word table
      \<and> table \<noteq> ''functions'' \<longrightarrow>
      snd (readResource_templates_lowlevel (Some c) e (''schema://adx/'' @ db @ ''/'' @ table))
        = [(db, table @ '' | getschema'')]
      \<and> (execute c db (table @ '' | getschema'') = Inr response
           \<and> primaryResults response = t # ts \<longrightarrow>
           fst (readResource_templates_lowlevel (Some c) e (''schema://adx/'' @ db @ ''/'' @ table))
             = Inr (Some (textResource (''schema://adx/'' @ db @ ''/'' @ table)
                            (''Schema of the table '' @ table) (toString t)))))
   \<and> (CHR ''/'' \<notin> set db \<and> CHR ''/'' \<notin> set table
      \<and> \<not> (db \<noteq> [] \<and> list_all is_word db \<and> table \<noteq> [] \<and> list_all is_word table) \<longrightarrow>
      readResource_templates_lowlevel (Some c) e (''schema://adx/'' @ db @ ''/'' @ table)
        = (Inr None, []))
   \<and> (table \<noteq> [] \<and> table \<noteq> ''functions'' \<longrightarrow>
      snd (schemaOfTheTable_template (Some c) href \<lparr>rt_db = db, rt_table = Some table\<rparr>)
        = [(db, table @ '' | getschema'')]
      \<and> (execute c db (table @ '' | getschema'') = Inr response
           \<and> primaryResults response = t # ts \<longrightarrow>
           fst (schemaOfTheTable_template (Some c) href \<lparr>rt_db = db, rt_table = Some table\<rparr>)
             = Inr (Some (textResource href (''Schema of the table '' @ table) (toString t)))))"
proof -
  let ?uri = "''schema://adx/'' @ db @ ''/'' @ table"
  have low: "readResource_templates_lowlevel (Some c) e ?uri =
      (case firstResult c db (table @ '' | getschema'') of
         Inl err \<Rightarrow> (Inl err, [(db, table @ '' | getschema'')])
       | Inr result \<Rightarrow>
           (Inr (Some (textResource ?uri (''Schema of the table '' @ table) result)),
            [(db, table @ '' | getschema'')]))"
    if "db \<noteq> []" "list_all is_word db" "table \<noteq> []" "list_all is_word table"
    using that by (rule lowlevel_two_segments_word)
  have none: "readResource_templates_lowlevel (Some c) e ?uri = (Inr None, [])"
    if "CHR ''/'' \<notin> set db" "CHR ''/'' \<notin> set table"
      "\<not> (db \<noteq> [] \<and> list_all is_word db \<and> table \<noteq> [] \<and> list_all is_word table)"
    using that by (rule lowlevel_two_segments_other)
  have 1: "db \<noteq> [] \<and> list_all is_word db \<and> table \<noteq> [] \<and> list_all is_word table
      \<and> table \<noteq> ''functions'' \<longrightarrow>
      snd (readResource_templates_lowlevel (Some c) e ?uri) = [(db, table @ '' | getschema'')]
      \<and> (execute c db (table @ '' | getschema'') = Inr response
           \<and> primaryResults response = t # ts \<longrightarrow>
           fst (readResource_templates_lowlevel (Some c) e ?uri)
             = Inr (Some (textResource ?uri (''Schema of the table '' @ table) (toString t))))"
    using low by (auto simp: firstResult_def split: sum.splits list.splits)
  have 2: "table \<noteq> [] \<and> table \<noteq> ''functions'' \<longrightarrow>
      snd (schemaOfTheTable_template (Some c) href \<lparr>rt_db = db, rt_table = Some table\<rparr>)
        = [(db, table @ '' | getschema'')]
      \<and> (execute c db (table @ '' | getschema'') = Inr response
           \<and> primaryResults response = t # ts \<longrightarrow>
           fst (schemaOfTheTable_template (Some c) href \<lparr>rt_db = db, rt_table = Some table\<rparr>)
             = Inr (Some (textResource href (''Schema of the table '' @ table) (toString t))))"
    by (auto simp: schemaOfTheTable_template_def firstResult_def truthy_def interpolate_def
        split: sum.splits list.splits)
  from 1 none 2 show ?thesis by blast
qed

text \<open>
  The address \<open>schema://adx/mydb/mytable\<close>, and the address
  \<open>schema://adx/mydb/my.table\<close>.
\<close>

theorem table_address_gets_schema_witness:
  "snd (readResource_templates_lowlevel (Some echoClient) Map.empty ''schema://adx/mydb/mytable'')
     = [(''mydb'', ''mytable | getschema'')]
   \<and> fst (readResource_templates_lowlevel (Some echoClient) Map.empty ''schema://adx/mydb/mytable'')
     = Inr (Some (textResource ''schema://adx/mydb/mytable'' ''Schema of the table mytable''
                    ''mytable | getschema on mydb''))
   \<and> readResource_templates_lowlevel (Some echoClient) Map.empty ''schema://adx/mydb/my.table''
     = (Inr None, [])
   \<and> snd (schemaOfTheTable_template (Some echoClient) ''schema://adx/mydb/mytable''
            \<lparr>rt_db = ''mydb'', rt_table = Some ''mytable''\<rparr>)
     = [(''mydb'', ''mytable | getschema'')]"
proof -
  have h1: "''mydb'' \<noteq> [] \<and> list_all is_word ''mydb'' \<and> ''mytable'' \<noteq> []
      \<and> list_all is_word ''mytable'' \<and> ''mytable'' \<noteq> ''functions''"
    by (simp add: is_word_def)
  have h2: "CHR ''/'' \<notin> set ''mydb'' \<and> CHR ''/'' \<notin> set ''my.table''
      \<and> \<not> (''mydb'' \<noteq> [] \<and> list_all is_word ''mydb'' \<and> ''my.table'' \<noteq> []
             \<and> list_all is_word ''my.table'')"
    by (simp add: is_word_def)
  show ?thesis
    using h1 h2
      table_address_gets_schema [of "''mydb''" "''mytable''" echoClient Map.empty
        "\<lparr>primaryResults = [KustoResultTable ''mytable | getschema on mydb'']\<rparr>"
        "KustoResultTable ''mytable | getschema on mydb''" "[]" "''schema://adx/mydb/mytable''"]
      table_address_gets_schema [of "''mydb''" "''my.table''" echoClient Map.empty
        "\<lparr>primaryResults = []\<rparr>" "KustoResultTable []" "[]" "''schema://adx/mydb/my.table''"]
    by (simp add: echoClient_def)
qed

text \<open>
  C7 as stated fails at \<open>schema://adx/my-db/my-table\<close>: no pattern of the low-level
  handler matches, and the handler returns \<open>undefined\<close> without a remote call.
\<close>

theorem table_address_gets_schema_counterexample:
  "readResource_templates_lowlevel (Some echoClient) Map.empty ''schema://adx/my-db/my-table''
     = (Inr None, [])
   \<and> snd (readResource_templates_lowlevel (Some echoClient) Map.empty ''schema://adx/my-db/my-table'')
       \<noteq> [(''my-db'', ''my-table | getschema'')]"
  by (simp add: readResource_templates_lowlevel_def regex_defs is_word_def)

section \<open>Start-up with an incomplete environment\<close>

lemma envIssues_missing:
  assumes "k \<in> set requiredVars" and "e k = None \<or> e k = Some []"
  shows "Required k \<in> set (envIssues e) \<or> (\<exists>msg. TooSmall k msg \<in> set (envIssues e))"
  using assms by (auto simp: requiredVars_def envIssues_def checkString_def)

lemma safeParse_missing:
  assumes "k \<in> set requiredVars" and "e k = None \<or> e k = Some []"
  shows "safeParse e = Inl (envIssues e)"
proof -
  have "envIssues e \<noteq> []"
    using envIssues_missing [of k e] assms by auto
  then show ?thesis
    by (simp add: safeParse_def split: option.splits)
qed

lemma connect_invalid:
  assumes "safeParse (config (processEnv s)) = Inl issues"
  shows "connect config newClient s =
           s\<lparr>processEnv := config (processEnv s),
             console := console s @ [ConsoleError ''Environment variable validation failed:'' issues]\<rparr>"
  using assms by (simp add: connect_def)

text \<open>With the four variables set to non-empty strings, \<open>connect\<close> builds the client.\<close>

lemma connect_valid:
  assumes "config (processEnv s) ''ADX_CLUSTER_NAME'' = Some cn" and "cn \<noteq> []"
    and "config (processEnv s) ''ADX_CLIENT_ID'' = Some ci" and "ci \<noteq> []"
    and "config (processEnv s) ''ADX_CLIENT_SECRET'' = Some cs" and "cs \<noteq> []"
    and "config (processEnv s) ''ADX_TENANT_ID'' = Some ti" and "ti \<noteq> []"
  shows "client (connect config newClient s) =
           Some (newClient (withAadApplicationKeyAuthentication
                   (''https://'' @ cn @ ''.kusto.windows.net'') ci cs ti))"
  using assms by (simp add: connect_def safeParse_def envIssues_def checkString_def)

lemma initialize_lowlevel_fields:
  "processEnv (initialize_lowlevel s) = processEnv s"
  "console (initialize_lowlevel s) = console s"
  "client (initialize_lowlevel s) = client s"
  "dom (requestHandlers (initialize_lowlevel s)) =
     dom (requestHandlers s) \<union>
     {ListResourcesRequestSchema, ListResourceTemplatesRequestSchema, ReadResourceRequestSchema}"
  by (auto simp: initialize_lowlevel_def registerQueryTool_lowlevel_def
      registerResourceTemplates_def registerResources_def setRequestHandler_def)

lemma initialize_template_fields:
  "processEnv (initialize_template s) = processEnv s"
  "console (initialize_template s) = console s"
  "client (initialize_template s) = client s"
  "resources (initialize_template s) =
     resources s @
     [(''Schema of the db'', ''schema://adx/{db}''),
      (''Schema of the table'', ''schema://adx/{db}/{table}''),
      (''Functions of the db'', ''functions://adx/{db}/functions''),
      (''config'', ''config://azure-data-explorer-creds'')]"
  "tools (initialize_template s) = tools s @ [''query'']"
  by (simp_all add: initialize_template_def registerQueryTool_def registerConfigResource_def
      registerSchemaResourceTemplate_def resource_def tool_def)

text \<open>
  C8. Let the environment that \<open>connect\<close> validates (the process environment after
  dotenv's \<open>config()\<close>, where the iteration calls it) lack one of the four required
  variables, or hold the empty string for it. Then \<open>connect\<close> writes one line to the
  console, whose issues name that variable, and changes nothing else of the server: the
  client stays as it was. \<open>createServer\<close>, the transport connecting, returns without
  an error, so the entry point does not exit the process; the server it leaves has no
  client, is connected to its transport and holds every registration of \<open>initialize\<close>,
  which ran before \<open>connect\<close>.
\<close>

theorem connect_invalid_environment:
  assumes "k \<in> set requiredVars" and "config e k = None \<or> config e k = Some []"
    and "processEnv s = e"
  shows "connect config newClient s =
           s\<lparr>processEnv := config e,
             console := console s @
               [ConsoleError ''Environment variable validation failed:'' (envIssues (config e))]\<rparr>
         \<and> (Required k \<in> set (envIssues (config e))
              \<or> (\<exists>msg. TooSmall k msg \<in> set (envIssues (config e))))
         \<and> client (connect config newClient s) = client s
         \<and> (case createServer_lowlevel None config newClient e of
               Inl err \<Rightarrow> False
             | Inr r \<Rightarrow>
                 client r = None \<and> transport r
                 \<and> dom (requestHandlers r) =
                     {ListResourcesRequestSchema, ListResourceTemplatesRequestSchema,
                      ReadResourceRequestSchema}
                 \<and> console r = [ConsoleError ''Environment variable validation failed:''
                                  (envIssues (config e))])
         \<and> (case createServer_template None config newClient e of
               Inl err \<Rightarrow> False
             | Inr r \<Rightarrow>
                 client r = None \<and> transport r
                 \<and> resources r =
                     [(''Schema of the db'', ''schema://adx/{db}''),
                      (''Schema of the table'', ''schema://adx/{db}/{table}''),
                      (''Functions of the db'', ''functions://adx/{db}/functions''),
                      (''config'', ''config://azure-data-explorer-creds'')]
                 \<and> tools r = [''query'']
                 \<and> console r = [ConsoleError ''Environment variable validation failed:''
                                  (envIssues (config e))])
         \<and> exitStatus (createServer_lowlevel None config newClient e) = None
         \<and> exitStatus (createServer_template None config newClient e) = None"
proof -
  let ?entry = "ConsoleError ''Environment variable validation failed:'' (envIssues (config e))"
  have p: "safeParse (config e) = Inl (envIssues (config e))"
    using assms(1,2) safeParse_missing [of k "config e"] by simp
  have c: "connect config newClient s =
             s\<lparr>processEnv := config e, console := console s @ [?entry]\<rparr>"
    using p assms(3) connect_invalid [of config s "envIssues (config e)" newClient] by simp
  have i: "Required k \<in> set (envIssues (config e))
             \<or> (\<exists>msg. TooSmall k msg \<in> set (envIssues (config e)))"
    using assms(1,2) envIssues_missing [of k "config e"] by simp
  have x: "client (connect config newClient s) = client s"
    unfolding c by simp
  let ?l = "(initialize_lowlevel (new_lowlevel e))\<lparr>transport := True\<rparr>"
  have pl: "safeParse (config (processEnv ?l)) = Inl (envIssues (config e))"
    using p by (simp add: initialize_lowlevel_fields new_lowlevel_def)
  have l: "createServer_lowlevel None config newClient e =
             Inr (?l\<lparr>processEnv := config (processEnv ?l), console := console ?l @ [?entry]\<rparr>)"
    unfolding createServer_lowlevel_def start_def
    using pl connect_invalid [of config ?l "envIssues (config e)" newClient] by simp
  let ?t = "(initialize_template (new_template e))\<lparr>transport := True\<rparr>"
  have pt: "safeParse (config (processEnv ?t)) = Inl (envIssues (config e))"
    using p by (simp add: initialize_template_fields new_template_def)
  have t: "createServer_template None config newClient e =
             Inr (?t\<lparr>processEnv := config (processEnv ?t), console := console ?t @ [?entry]\<rparr>)"
    unfolding createServer_template_def start_def
    using pt connect_invalid [of config ?t "envIssues (config e)" newClient] by simp
  have dl: "dom (requestHandlers (initialize_lowlevel (new_lowlevel e))) =
      {ListResourcesRequestSchema, ListResourceTemplatesRequestSchema, ReadResourceRequestSchema}"
    by (simp add: initialize_lowlevel_fields new_lowlevel_def)
  have rl: "case createServer_lowlevel None config newClient e of
               Inl err \<Rightarrow> False
             | Inr r \<Rightarrow>
                 client r = None \<and> transport r
                 \<and> dom (requestHandlers r) =
                     {ListResourcesRequestSchema, ListResourceTemplatesRequestSchema,
                      ReadResourceRequestSchema}
                 \<and> console r = [?entry]"
    unfolding l using dl by (simp add: initialize_lowlevel_fields new_lowlevel_def)
  have rt: "case createServer_template None config newClient e of
               Inl err \<Rightarrow> False
             | Inr r \<Rightarrow>
                 client r = None \<and> transport r
                 \<and> resources r =
                     [(''Schema of the db'', ''schema://adx/{db}''),
                      (''Schema of the table'', ''schema://adx/{db}/{table}''),
                      (''Functions of the db'', ''functions://adx/{db}/functions''),
                      (''config'', ''config://azure-data-explorer-creds'')]
                 \<and> tools r = [''query'']
                 \<and> console r = [?entry]"
    unfolding t by (simp add: initialize_template_fields new_template_def)
  have el: "exitStatus (createServer_lowlevel None config newClient e) = None"
    unfolding l by (simp add: exitStatus_def)
  have et: "exitStatus (createServer_template None config newClient e) = None"
    unfolding t by (simp add: exitStatus_def)
  from c i x rl rt el et show ?thesis by (intro conjI)
qed

text \<open>The environment with no tenant id: one line on the console, no client, no exit.\<close>

theorem connect_invalid_environment_witness:
  "client (connect id (\<lambda>k. echoClient) (new_lowlevel noTenantEnv)) = None
   \<and> console (connect id (\<lambda>k. echoClient) (new_lowlevel noTenantEnv))
       = [ConsoleError ''Environment variable validation failed:'' [Required ''ADX_TENANT_ID'']]
   \<and> exitStatus (createServer_lowlevel None id (\<lambda>k. echoClient) noTenantEnv) = None
   \<and> exitStatus (createServer_template None id (\<lambda>k. echoClient) noTenantEnv) = None"
proof -
  have h1: "''ADX_TENANT_ID'' \<in> set requiredVars" by (simp add: requiredVars_def)
  have h2: "id noTenantEnv ''ADX_TENANT_ID'' = None \<or> id noTenantEnv ''ADX_TENANT_ID'' = Some []"
    by (simp add: noTenantEnv_def)
  have h3: "processEnv (new_lowlevel noTenantEnv) = noTenantEnv" by (simp add: new_lowlevel_def)
  have r: "envIssues noTenantEnv = [Required ''ADX_TENANT_ID'']"
    by (simp add: envIssues_def checkString_def noTenantEnv_def)
  note w = connect_invalid_environment [where k = "''ADX_TENANT_ID''" and config = id
      and e = noTenantEnv and s = "new_lowlevel noTenantEnv" and newClient = "\<lambda>k. echoClient",
      OF h1 h2 h3]
  from w have w1: "connect id (\<lambda>k. echoClient) (new_lowlevel noTenantEnv) =
      (new_lowlevel noTenantEnv)\<lparr>processEnv := id noTenantEnv,
        console := console (new_lowlevel noTenantEnv) @
          [ConsoleError ''Environment variable validation failed:'' (envIssues (id noTenantEnv))]\<rparr>"
    by (rule conjunct1)
  from w have w2: "exitStatus (createServer_lowlevel None id (\<lambda>k. echoClient) noTenantEnv) = None"
    "exitStatus (createServer_template None id (\<lambda>k. echoClient) noTenantEnv) = None"
    by simp_all
  show ?thesis
    unfolding w1 using w2 r by (simp add: new_lowlevel_def)
qed

section \<open>Shutdown\<close>

text \<open>
  C9. \<open>disconnect\<close> is idempotent. Whatever the client is, after one call it is unset,
  a second call changes nothing (it closes nothing either), and the client is unset after
  it too; a call when the client is already unset changes nothing. \<open>disconnect\<close> has
  no way to fail: the one thing it calls is \<open>close()\<close> of the client.
\<close>

theorem disconnect_idempotent:
  "disconnect (disconnect s) = disconnect s
   \<and> client (disconnect s) = None
   \<and> client (disconnect (disconnect s)) = None
   \<and> closed (disconnect (disconnect s)) = closed (disconnect s)
   \<and> (client s = None \<longrightarrow> disconnect s = s)"
  by (simp add: disconnect_def split: option.splits)

theorem disconnect_idempotent_witness:
  "disconnect (new_lowlevel Map.empty) = new_lowlevel Map.empty
   \<and> client (disconnect (disconnect ((new_lowlevel Map.empty)\<lparr>client := Some echoClient\<rparr>))) = None
   \<and> closed (disconnect (disconnect ((new_lowlevel Map.empty)\<lparr>client := Some echoClient\<rparr>)))
       = [echoClient]"
proof -
  have h: "client (new_lowlevel Map.empty) = None" by (simp add: new_lowlevel_def)
  have c: "closed (disconnect ((new_lowlevel Map.empty)\<lparr>client := Some echoClient\<rparr>)) = [echoClient]"
    by (simp add: disconnect_def new_lowlevel_def)
  show ?thesis
    using h c disconnect_idempotent [of "new_lowlevel Map.empty"]
      disconnect_idempotent [of "(new_lowlevel Map.empty)\<lparr>client := Some echoClient\<rparr>"]
    by simp
qed

section \<open>The two read handlers of the low-level iteration\<close>

text \<open>
  C10. In the low-level iteration \<open>registerResources\<close> installs the config read handler
  for the read-resource request type, and \<open>registerResourceTemplates\<close>, which
  \<open>initialize\<close> runs next, installs the schema read handler for the same type, which
  replaces it. After \<open>initialize\<close> a read of \<open>config://azure-data-explorer-creds\<close> runs
  the schema handler; none of its three patterns matches the address, and the handler
  returns \<open>undefined\<close>, not the four configuration entries that the replaced handler
  would have returned.
\<close>

theorem config_read_shadowed:
  "requestHandlers (registerResources s) ReadResourceRequestSchema
     = Some (ReadHandler readResource_config_lowlevel)
   \<and> requestHandlers (initialize_lowlevel s) ReadResourceRequestSchema
     = Some (ReadHandler readResource_templates_lowlevel)
   \<and> \<not> test showTablesRegex ''config://azure-data-explorer-creds''
   \<and> \<not> test showTableSchemaRegex ''config://azure-data-explorer-creds''
   \<and> \<not> test showFunctionsRegex ''config://azure-data-explorer-creds''
   \<and> readResource_lowlevel (initialize_lowlevel s) ''config://azure-data-explorer-creds''
     = Some (Inr None, [])
   \<and> readResource_lowlevel (registerResources s) ''config://azure-data-explorer-creds''
     = Some (Inr (Some \<lparr>contents = configContents (processEnv s), isError = False\<rparr>), [])"
proof -
  have n: "\<not> test showTablesRegex ''config://azure-data-explorer-creds''"
    "\<not> test showTableSchemaRegex ''config://azure-data-explorer-creds''"
    "\<not> test showFunctionsRegex ''config://azure-data-explorer-creds''"
    by (simp_all add: regex_defs)
  have r: "readResource_templates_lowlevel cl e ''config://azure-data-explorer-creds'' = (Inr None, [])"
    for cl e
    unfolding readResource_templates_lowlevel_def using n by simp
  show ?thesis
    using n r
    by (simp add: readResource_lowlevel_def initialize_lowlevel_def registerQueryTool_lowlevel_def
        registerResourceTemplates_def registerResources_def setRequestHandler_def
        readResource_config_lowlevel_def)
qed

end
